theory Spec2Isabelle
  imports Complex_Main "HOL-Library.Sublist" "HOL-Library.AList"
begin

section \<open>JavaScript values used by the formula component\<close>

text \<open>
  A JavaScript number is modelled by the real number it denotes; \<open>None\<close> stands for
  \<open>NaN\<close> (the only non-finite value the modelled code can produce from finite
  inputs). The built-in \<open>parseFloat\<close> is a parameter \<open>pf\<close> of every function that
  calls it. The rounding of a binary64 operation to the nearest representable number is
  the parameter \<open>rnd\<close> of the functions that compute the scale and the capture size,
  whose results go through \<open>Math.ceil\<close>.
\<close>

type_synonym jsnum = "real option"

definition js_max :: "jsnum \<Rightarrow> jsnum \<Rightarrow> jsnum" where
  "js_max a b = (case a of None \<Rightarrow> None
                 | Some x \<Rightarrow> (case b of None \<Rightarrow> None | Some y \<Rightarrow> Some (max x y)))"

definition js_add :: "jsnum \<Rightarrow> jsnum \<Rightarrow> jsnum" where
  "js_add a b = (case a of None \<Rightarrow> None
                 | Some x \<Rightarrow> (case b of None \<Rightarrow> None | Some y \<Rightarrow> Some (x + y)))"

definition js_sub :: "jsnum \<Rightarrow> jsnum \<Rightarrow> jsnum" where
  "js_sub a b = (case a of None \<Rightarrow> None
                 | Some x \<Rightarrow> (case b of None \<Rightarrow> None | Some y \<Rightarrow> Some (x - y)))"

definition js_mul :: "jsnum \<Rightarrow> jsnum \<Rightarrow> jsnum" where
  "js_mul a b = (case a of None \<Rightarrow> None
                 | Some x \<Rightarrow> (case b of None \<Rightarrow> None | Some y \<Rightarrow> Some (x * y)))"

text \<open>\<open>x || d\<close> on a number: \<open>NaN\<close>, \<open>undefined\<close> and \<open>0\<close> are falsy.\<close>

definition num_or :: "jsnum \<Rightarrow> real \<Rightarrow> real" where
  "num_or x d = (case x of None \<Rightarrow> d | Some v \<Rightarrow> if v = 0 then d else v)"

text \<open>
  A style value is either a string literal of the source or a template
  \<open>`${n}px`\<close> built from a number.
\<close>

datatype css_value = Lit string | Px jsnum

section \<open>Component properties (interface MathToImageProps)\<close>

record props =
  math :: string
  displayMode :: bool
  className :: string
  parentFontSize :: "string option"
  targetDPI :: real
  quality :: real

text \<open>The destructuring defaults of the component.\<close>

definition default_props :: "string \<Rightarrow> props" where
  "default_props m = \<lparr> math = m, displayMode = False, className = '''',
     parentFontSize = None, targetDPI = 96, quality = 1 \<rparr>"

text \<open>\<open>if (parentFontSize)\<close>: an absent property and the empty string are falsy.\<close>

definition str_truthy :: "string option \<Rightarrow> bool" where
  "str_truthy s = (case s of None \<Rightarrow> False | Some t \<Rightarrow> t \<noteq> [])"

section \<open>Staging base font size\<close>

definition baseFontSize :: "(string \<Rightarrow> jsnum) \<Rightarrow> string option \<Rightarrow> bool \<Rightarrow> css_value" where
  "baseFontSize pf pfs dm =
     (if str_truthy pfs then
        (let parentSize = pf (the pfs) in
         if dm then Px (js_max (js_mul parentSize (Some (11 / 10))) (Some 18))
         else Px (js_max (js_mul parentSize (Some 1)) (Some 14)))
      else if dm then Lit ''20px'' else Lit ''16px'')"

section \<open>Staging container\<close>

text \<open>
  The inline style of the staging container (\<open>tempDiv.style\<close>) is an association
  list from property names to values; every property is an independent entry.
\<close>

type_synonym style = "(string \<times> css_value) list"

definition set_style :: "string \<Rightarrow> css_value \<Rightarrow> style \<Rightarrow> style" where
  "set_style k v st = AList.update k v st"

definition staging_style :: "(string \<Rightarrow> jsnum) \<Rightarrow> props \<Rightarrow> style" where
  "staging_style pf p =
     (let st0 = [(''position'', Lit ''absolute''), (''left'', Lit ''-9999px''),
                 (''top'', Lit ''-9999px''),
                 (''fontFamily'', Lit ''KaTeX_Main,Times New Roman,serif''),
                 (''background'', Lit ''white''), (''color'', Lit ''black'')];
          bfs = baseFontSize pf (parentFontSize p) (displayMode p)
      in if displayMode p then
           st0 @ [(''fontSize'', bfs), (''padding'', Lit ''0.8em 1.0em''),
                  (''textAlign'', Lit ''center''), (''maxWidth'', Lit ''600px''),
                  (''margin'', Lit ''0 auto''), (''minHeight'', Lit ''2.5em''),
                  (''lineHeight'', Lit ''1.4'')]
         else
           st0 @ [(''fontSize'', bfs), (''padding'', Lit ''0.3em 0.5em''),
                  (''lineHeight'', Lit ''1.2''), (''display'', Lit ''inline-block''),
                  (''minWidth'', Lit ''1.2em''), (''minHeight'', Lit ''1.2em''),
                  (''textAlign'', Lit ''center'')])"

text \<open>A \<open>DOMRect\<close> as returned by \<open>getBoundingClientRect\<close>.\<close>

record rect =
  rleft :: real
  rtop :: real
  rwidth :: real
  rheight :: real

text \<open>\<open>String.prototype.split\<close> on a one-character separator.\<close>

fun split_on :: "char \<Rightarrow> string \<Rightarrow> string list" where
  "split_on d [] = [[]]"
| "split_on d (c # cs) =
     (if c = d then [] # split_on d cs
      else (case split_on d cs of [] \<Rightarrow> [[c]] | w # ws \<Rightarrow> (c # w) # ws))"

text \<open>Array indexing (\<open>undefined\<close> out of range) and \<open>||\<close> on strings.\<close>

definition idx :: "string list \<Rightarrow> nat \<Rightarrow> string option" where
  "idx xs i = (if i < length xs then Some (xs ! i) else None)"

definition str_or :: "string option \<Rightarrow> string option \<Rightarrow> string option" where
  "str_or a b = (if str_truthy a then a else b)"

text \<open>
  \<open>tempDiv.style.padding ? tempDiv.style.padding.split(' ') : ['0', '0', '0', '0']\<close>.
  The shorthand is read back as the literal the code assigned to it.
\<close>

definition currentPadding :: "style \<Rightarrow> string list" where
  "currentPadding st =
     (case map_of st ''padding'' of
        Some (Lit s) \<Rightarrow> if s \<noteq> [] then split_on CHR '' '' s else [''0'', ''0'', ''0'', ''0'']
      | _ \<Rightarrow> [''0'', ''0'', ''0'', ''0''])"

definition paddingTop :: "(string \<Rightarrow> jsnum) \<Rightarrow> string list \<Rightarrow> jsnum" where
  "paddingTop pf cp = pf (the (str_or (idx cp 0) (Some ''0'')))"

definition paddingRight :: "(string \<Rightarrow> jsnum) \<Rightarrow> string list \<Rightarrow> jsnum" where
  "paddingRight pf cp = pf (the (str_or (idx cp 1) (str_or (idx cp 0) (Some ''0''))))"

definition paddingBottom :: "(string \<Rightarrow> jsnum) \<Rightarrow> string list \<Rightarrow> jsnum" where
  "paddingBottom pf cp = pf (the (str_or (idx cp 2) (str_or (idx cp 0) (Some ''0''))))"

definition paddingLeft :: "(string \<Rightarrow> jsnum) \<Rightarrow> string list \<Rightarrow> jsnum" where
  "paddingLeft pf cp =
     pf (the (str_or (idx cp 3) (str_or (idx cp 1) (str_or (idx cp 0) (Some ''0'')))))"

definition adjustX :: "rect \<Rightarrow> rect \<Rightarrow> real" where
  "adjustX katexRect containerRect =
     (rwidth containerRect - rwidth katexRect) / 2 - (rleft katexRect - rleft containerRect)"

definition adjustY :: "rect \<Rightarrow> rect \<Rightarrow> real" where
  "adjustY katexRect containerRect =
     (rheight containerRect - rheight katexRect) / 2 - (rtop katexRect - rtop containerRect)"

text \<open>
  The centring adjustment after the settle delay (lines 122-151). The first argument of
  \<open>center_padding\<close> after \<open>pf\<close> is the bounding box of the \<open>.katex\<close> element, \<open>None\<close>
  when \<open>querySelector\<close> finds none.
\<close>

definition center_padding ::
  "(string \<Rightarrow> jsnum) \<Rightarrow> rect option \<Rightarrow> rect \<Rightarrow> style \<Rightarrow> style" where
  "center_padding pf katexRect containerRect st =
     (case katexRect of
        None \<Rightarrow> st
      | Some k \<Rightarrow>
          (let offsetX = rleft k - rleft containerRect;
               offsetY = rtop k - rtop containerRect
           in if \<bar>offsetX\<bar> > 1 \<or> \<bar>offsetY\<bar> > 1 then
                (let cp = currentPadding st;
                     ay = adjustY k containerRect;
                     ax = adjustX k containerRect
                 in set_style ''paddingRight''
                      (Px (js_max (Some 0) (js_sub (paddingRight pf cp) (Some ax))))
                   (set_style ''paddingLeft''
                      (Px (js_max (Some 0) (js_add (paddingLeft pf cp) (Some ax))))
                   (set_style ''paddingBottom''
                      (Px (js_max (Some 0) (js_sub (paddingBottom pf cp) (Some ay))))
                   (set_style ''paddingTop''
                      (Px (js_max (Some 0) (js_add (paddingTop pf cp) (Some ay)))) st))))
              else st))"

section \<open>Resolution model and capture size\<close>

text \<open>
  The measurements the browser reports for the staging container. \<open>offset\<close> and
  \<open>scroll\<close> sizes are numbers, the computed style size is a string.
\<close>

record measures =
  offsetWidth :: real
  scrollWidth :: real
  computedWidth :: string
  rectWidth :: real
  offsetHeight :: real
  scrollHeight :: real
  computedHeight :: string
  rectHeight :: real

definition actualWidth :: "(string \<Rightarrow> jsnum) \<Rightarrow> measures \<Rightarrow> real" where
  "actualWidth pf m =
     max (max (num_or (Some (offsetWidth m)) (scrollWidth m)) (num_or (pf (computedWidth m)) 0))
         (num_or (Some (rectWidth m)) 0)"

definition actualHeight :: "(string \<Rightarrow> jsnum) \<Rightarrow> measures \<Rightarrow> real" where
  "actualHeight pf m =
     max (max (num_or (Some (offsetHeight m)) (scrollHeight m)) (num_or (pf (computedHeight m)) 0))
         (num_or (Some (rectHeight m)) 0)"

text \<open>
  \<open>scale = targetDPI / (72 * devicePixelRatio)\<close> with
  \<open>devicePixelRatio = window.devicePixelRatio || 1\<close>. The product and the quotient
  are binary64 operations, each rounded by \<open>rnd\<close>.
\<close>

definition scale :: "(real \<Rightarrow> real) \<Rightarrow> real \<Rightarrow> jsnum \<Rightarrow> real" where
  "scale rnd tdpi dpr = rnd (tdpi / rnd (72 * num_or dpr 1))"

text \<open>
  \<open>Math.ceil(actualWidth * scale)\<close> and \<open>Math.ceil(actualHeight * scale)\<close>, the
  product rounded by \<open>rnd\<close>.
\<close>

definition captureWidth ::
  "(real \<Rightarrow> real) \<Rightarrow> (string \<Rightarrow> jsnum) \<Rightarrow> real \<Rightarrow> jsnum \<Rightarrow> measures \<Rightarrow> int" where
  "captureWidth rnd pf tdpi dpr m = \<lceil>rnd (actualWidth pf m * scale rnd tdpi dpr)\<rceil>"

definition captureHeight ::
  "(real \<Rightarrow> real) \<Rightarrow> (string \<Rightarrow> jsnum) \<Rightarrow> real \<Rightarrow> jsnum \<Rightarrow> measures \<Rightarrow> int" where
  "captureHeight rnd pf tdpi dpr m = \<lceil>rnd (actualHeight pf m * scale rnd tdpi dpr)\<rceil>"

section \<open>Encoding\<close>

text \<open>
  \<open>canvas.toDataURL(type, quality)\<close> is a parameter: it returns the data URL, or
  \<open>None\<close> when the call throws.
\<close>

definition encode :: "(string \<Rightarrow> real \<Rightarrow> string option) \<Rightarrow> real \<Rightarrow> string option" where
  "encode toDataURL q =
     (case toDataURL ''image/png'' q of
        Some u \<Rightarrow> Some u
      | None \<Rightarrow> toDataURL ''image/jpeg'' (max q (8 / 10)))"

section \<open>Formula lifecycle\<close>

text \<open>
  The component state (\<open>useState\<close>) and the part of the document the effect touches:
  the staging containers attached to \<open>document.body\<close> and a log of the calls made to
  the outside (DOM attachment, capture, console). Staging containers are identified by
  a number; a container's parent is \<open>document.body\<close> or nothing.
\<close>

datatype effect =
    AppendChild nat
  | RemoveChild nat
  | Html2canvas nat style int int
  | ConsoleWarn
  | ConsoleError

record comp =
  imageDataUrl :: string
  isLoading :: bool

record world = comp +
  body :: "nat list"
  effects :: "effect list"

text \<open>
  What the outside does during one run of \<open>convertMathToImage\<close>: whether
  \<open>katex.render\<close> throws, whether a measurement call throws, what is measured,
  whether \<open>html2canvas\<close> rejects, and what \<open>toDataURL\<close> returns.
\<close>

record run_env =
  katexThrows :: bool
  measureThrows :: bool
  katexRect :: "rect option"
  containerRect :: rect
  devicePixelRatio :: jsnum
  sizes :: measures
  captureFails :: bool
  toDataURL :: "string \<Rightarrow> real \<Rightarrow> string option"

text \<open>
  \<open>!math.trim()\<close>: the source is blank when trimming leaves nothing. A character
  is a code unit below 256; of those, \<open>String.prototype.trim\<close> strips the tab, the
  four line and page breaks, the space and the no-break space.
\<close>

definition is_space :: "char \<Rightarrow> bool" where
  "is_space c =
     (c \<in> set [CHR '' '', CHR 0x09, CHR 0x0A, CHR 0x0B, CHR 0x0C, CHR 0x0D, CHR 0xA0])"

definition trim :: "string \<Rightarrow> string" where
  "trim s = rev (dropWhile is_space (rev (dropWhile is_space s)))"

text \<open>\<open>if (tempDiv && tempDiv.parentNode) document.body.removeChild(tempDiv)\<close>\<close>

definition cleanup :: "nat \<Rightarrow> world \<Rightarrow> world" where
  "cleanup e w =
     (if e \<in> set (body w)
      then w\<lparr>body := remove1 e (body w), effects := effects w @ [RemoveChild e]\<rparr>
      else w)"

text \<open>The outer \<open>catch\<close> block.\<close>

definition on_error :: "nat \<Rightarrow> world \<Rightarrow> world" where
  "on_error e w = (cleanup e (w\<lparr>effects := effects w @ [ConsoleError]\<rparr>))\<lparr>isLoading := False\<rparr>"

text \<open>
  The async function suspends twice: at the settle delay and at the capture. Each of
  the three functions below runs the code between two suspension points.
\<close>

datatype phase = AwaitSettle | AwaitCapture | Finished

text \<open>The effect body up to the settle delay: \<open>setIsLoading(true)\<close>, then lines 47-119.\<close>

definition start_run :: "props \<Rightarrow> run_env \<Rightarrow> nat \<Rightarrow> world \<Rightarrow> phase \<times> world" where
  "start_run p env e w0 =
     (let w = w0\<lparr>isLoading := True\<rparr>
      in if trim (math p) = [] then (Finished, w\<lparr>isLoading := False\<rparr>)
         else (let w1 = w\<lparr>body := body w @ [e], effects := effects w @ [AppendChild e]\<rparr>
               in if katexThrows env then (Finished, on_error e w1) else (AwaitSettle, w1)))"

text \<open>Lines 121-188: centring, measurement, and the call of \<open>html2canvas\<close>.\<close>

definition after_settle ::
  "(real \<Rightarrow> real) \<Rightarrow> (string \<Rightarrow> jsnum) \<Rightarrow> props \<Rightarrow> run_env \<Rightarrow> nat \<Rightarrow> world \<Rightarrow> phase \<times> world" where
  "after_settle rnd pf p env e w =
     (if measureThrows env then (Finished, on_error e w)
      else (let st = center_padding pf (katexRect env) (containerRect env) (staging_style pf p);
                wd = captureWidth rnd pf (targetDPI p) (devicePixelRatio env) (sizes env);
                ht = captureHeight rnd pf (targetDPI p) (devicePixelRatio env) (sizes env)
            in (AwaitCapture, w\<lparr>effects := effects w @ [Html2canvas e st wd ht]\<rparr>)))"

text \<open>Lines 190-218: encoding, the state update and the cleanup.\<close>

definition after_capture :: "props \<Rightarrow> run_env \<Rightarrow> nat \<Rightarrow> world \<Rightarrow> phase \<times> world" where
  "after_capture p env e w =
     (if captureFails env then (Finished, on_error e w)
      else (let w1 = (if toDataURL env ''image/png'' (quality p) = None
                      then w\<lparr>effects := effects w @ [ConsoleWarn]\<rparr> else w)
            in case encode (toDataURL env) (quality p) of
                 None \<Rightarrow> (Finished, on_error e w1)
               | Some u \<Rightarrow> (Finished, (cleanup e (w1\<lparr>imageDataUrl := u\<rparr>))\<lparr>isLoading := False\<rparr>)))"

text \<open>One run of the effect from start to end, with nothing interleaved.\<close>

definition convertMathToImage ::
  "(real \<Rightarrow> real) \<Rightarrow> (string \<Rightarrow> jsnum) \<Rightarrow> props \<Rightarrow> run_env \<Rightarrow> nat \<Rightarrow> world \<Rightarrow> world" where
  "convertMathToImage rnd pf p env e w =
     (case start_run p env e w of
        (Finished, w1) \<Rightarrow> w1
      | (_, w1) \<Rightarrow>
          (case after_settle rnd pf p env e w1 of
             (Finished, w2) \<Rightarrow> w2
           | (_, w2) \<Rightarrow> snd (after_capture p env e w2)))"

subsection \<open>Overlapping runs of one occurrence\<close>

text \<open>
  The effect has no cleanup function and keeps no request tag. A change of a
  dependency starts a new run while earlier ones are still suspended; the scheduler
  resumes suspended runs in any order.
\<close>

record task =
  t_props :: props
  t_env :: run_env
  t_elem :: nat
  t_phase :: phase

record system =
  sys_world :: world
  tasks :: "task list"

datatype event = Issue props run_env | Resume nat

definition resume_task ::
  "(real \<Rightarrow> real) \<Rightarrow> (string \<Rightarrow> jsnum) \<Rightarrow> task \<Rightarrow> world \<Rightarrow> phase \<times> world" where
  "resume_task rnd pf t w =
     (case t_phase t of
        AwaitSettle \<Rightarrow> after_settle rnd pf (t_props t) (t_env t) (t_elem t) w
      | AwaitCapture \<Rightarrow> after_capture (t_props t) (t_env t) (t_elem t) w
      | Finished \<Rightarrow> (Finished, w))"

fun step ::
  "(real \<Rightarrow> real) \<Rightarrow> (string \<Rightarrow> jsnum) \<Rightarrow> system \<Rightarrow> event \<Rightarrow> system" where
  "step rnd pf s (Issue p env) =
     (let e = length (tasks s);
          r = start_run p env e (sys_world s)
      in \<lparr>sys_world = snd r,
          tasks = tasks s @ [\<lparr>t_props = p, t_env = env, t_elem = e, t_phase = fst r\<rparr>]\<rparr>)"
| "step rnd pf s (Resume i) =
     (if i < length (tasks s) then
        (let t = tasks s ! i;
             r = resume_task rnd pf t (sys_world s)
         in \<lparr>sys_world = snd r, tasks = (tasks s)[i := t\<lparr>t_phase := fst r\<rparr>]\<rparr>)
      else s)"

definition run_events ::
  "(real \<Rightarrow> real) \<Rightarrow> (string \<Rightarrow> jsnum) \<Rightarrow> event list \<Rightarrow> system \<Rightarrow> system" where
  "run_events rnd pf evs s = foldl (step rnd pf) s evs"

definition init_system :: system where
  "init_system =
     \<lparr>sys_world = \<lparr>imageDataUrl = '''', isLoading = True, body = [], effects = []\<rparr>,
      tasks = []\<rparr>"

subsection \<open>What the component renders\<close>

text \<open>
  The element the component returns. The source's Chinese literals are written in
  English: \<open>txt_loading\<close> is the block placeholder text, \<open>txt_dot\<close> the inline
  placeholder (a middle dot), \<open>txt_formula\<close> the prefix of the image's alt and title.
  \<open>katex.renderToString\<close> is a parameter; \<open>None\<close> when it throws.
\<close>

datatype content = TextContent string | InnerHTML string | NoContent

record velem =
  tag :: string
  classAttr :: string
  content :: content
  src :: string
  titleAttr :: "string option"

definition txt_loading :: string where
  "txt_loading = ''formula loading...''"

definition txt_dot :: string where
  "txt_dot = ''.''"

definition txt_formula :: string where
  "txt_formula = ''math formula: ''"

definition MathToImage_render ::
  "(string \<Rightarrow> bool \<Rightarrow> string option) \<Rightarrow> props \<Rightarrow> 'a comp_scheme \<Rightarrow> velem" where
  "MathToImage_render renderToString p st =
     (if isLoading st then
        \<lparr>tag = ''span'', classAttr = ''math-loading '' @ className p,
         content = TextContent (if displayMode p then txt_loading else txt_dot),
         src = '''', titleAttr = None\<rparr>
      else if imageDataUrl st = [] then
        (case renderToString (math p) (displayMode p) of
           Some html \<Rightarrow>
             \<lparr>tag = ''span'', classAttr = ''math-fallback '' @ className p,
              content = InnerHTML html, src = '''', titleAttr = None\<rparr>
         | None \<Rightarrow>
             \<lparr>tag = ''span'', classAttr = className p,
              content = TextContent (math p), src = '''', titleAttr = None\<rparr>)
      else
        \<lparr>tag = ''img'', classAttr = ''math-image '' @ className p,
         content = NoContent, src = imageDataUrl st,
         titleAttr = Some (txt_formula @ math p)\<rparr>)"

text \<open>
  The image committed to the occurrence after request \<open>A\<close> and then request \<open>B\<close>
  were issued and the suspended runs (run 0 for \<open>A\<close>, run 1 for \<open>B\<close>) were resumed in
  the order \<open>sch\<close>.
\<close>

definition final_image ::
  "(real \<Rightarrow> real) \<Rightarrow> (string \<Rightarrow> jsnum) \<Rightarrow> props \<Rightarrow> run_env \<Rightarrow> props \<Rightarrow> run_env \<Rightarrow> nat list \<Rightarrow> string" where
  "final_image rnd pf pA envA pB envB sch =
     imageDataUrl (sys_world
       (run_events rnd pf ([Issue pA envA, Issue pB envB] @ map Resume sch) init_system))"

section \<open>Export transform\<close>

text \<open>
  Step C of the code block loop: \<open>codeElement.innerHTML.replace(/\n/g, '<br>')\<close>.
\<close>

definition newline_to_br :: "string \<Rightarrow> string" where
  "newline_to_br s = concat (map (\<lambda>c. if c = CHR 0x0A then ''<br>'' else [c]) s)"

text \<open>
  The wrapper of line 188: the template literal with its line breaks and indentation.
\<close>

definition wrap_fragment :: "string \<Rightarrow> string" where
  \<open>wrap_fragment htmlContent =
     ''<div style="'' @ [CHR 0x0A] @
     ''          font-family: -apple-system, BlinkMacSystemFont, 'Segoe UI', 'Roboto', 'Helvetica Neue', Arial, sans-serif;'' @ [CHR 0x0A] @
     ''          font-size: 16px;'' @ [CHR 0x0A] @
     ''          line-height: 1.6;'' @ [CHR 0x0A] @
     ''          color: #1f2937;'' @ [CHR 0x0A] @
     ''          max-width: none;'' @ [CHR 0x0A] @
     ''          margin: 0;'' @ [CHR 0x0A] @
     ''          padding: 0;'' @ [CHR 0x0A] @
     ''          background-color: #ffffff;'' @ [CHR 0x0A] @
     ''          word-wrap: break-word;'' @ [CHR 0x0A] @
     ''          mso-line-height-rule: exactly;'' @ [CHR 0x0A] @
     ''          mso-text-raise: 0;'' @ [CHR 0x0A] @
     ''        ">'' @
     htmlContent @ ''</div>''\<close>

text \<open>
  The attribute injections of lines 254-343. \<open>inject_style nm attr\<close> is
  \<open>replace(/<nm([^>]*)>/g, '<nm$1' + attr + '>')\<close>: scanning from the left, at every
  position where \<open><nm\<close> starts and a \<open>>\<close> follows, the text up to that \<open>>\<close> is
  kept, \<open>attr\<close> is put before the \<open>>\<close>, and the scan goes on after it.
\<close>

function inject_style :: "string \<Rightarrow> string \<Rightarrow> string \<Rightarrow> string" where
  "inject_style nm attr [] = []"
| "inject_style nm attr (c # cs) =
     (if prefix (CHR ''<'' # nm) (c # cs) \<and>
         dropWhile (\<lambda>x. x \<noteq> CHR ''>'') (drop (length nm) cs) \<noteq> []
      then CHR ''<'' # nm @ takeWhile (\<lambda>x. x \<noteq> CHR ''>'') (drop (length nm) cs) @ attr @
           CHR ''>'' #
           inject_style nm attr (tl (dropWhile (\<lambda>x. x \<noteq> CHR ''>'') (drop (length nm) cs)))
      else c # inject_style nm attr cs)"
  by pat_completeness auto
termination
proof (relation "measure (\<lambda>(nm, attr, s). length s)")
  show "wf (measure (\<lambda>(nm, attr, s). length s))" by simp
next
  fix nm attr :: string and c :: char and cs :: string
  have "length (dropWhile (\<lambda>x. x \<noteq> CHR ''>'') (drop (length nm) cs)) \<le> length cs"
    by (rule order_trans [OF length_dropWhile_le]) simp
  then show "((nm, attr, tl (dropWhile (\<lambda>x. x \<noteq> CHR ''>'') (drop (length nm) cs))),
              (nm, attr, c # cs)) \<in> measure (\<lambda>(nm, attr, s). length s)"
    by simp
next
  fix nm attr :: string and c :: char and cs :: string
  show "((nm, attr, cs), (nm, attr, c # cs)) \<in> measure (\<lambda>(nm, attr, s). length s)"
    by simp
qed

text \<open>Decimal digits of a number, as a template literal prints it.\<close>

function show_nat :: "nat \<Rightarrow> string" where
  "show_nat n =
     (if n < 10 then [''0123456789'' ! n]
      else show_nat (n div 10) @ [''0123456789'' ! (n mod 10)])"
  by pat_completeness auto
termination
  by (relation "measure (\<lambda>n. n)") auto

datatype elem_type = Code | Table | Th | Td | Blockquote | Heading nat

fun tag_name :: "elem_type \<Rightarrow> string" where
  "tag_name Code = ''code''"
| "tag_name Table = ''table''"
| "tag_name Th = ''th''"
| "tag_name Td = ''td''"
| "tag_name Blockquote = ''blockquote''"
| "tag_name (Heading i) = ''h'' @ show_nat i"

fun style_attr :: "elem_type \<Rightarrow> string" where
   \<open>style_attr Code =
     '' style="background-color: #f1f3f4; '' @
     ''color: #c7254e; '' @
     ''padding: 2px 6px; '' @
     ''margin: 0 2px; '' @
     ''font-family: Consolas, 'Courier New', Monaco, monospace; '' @
     ''font-size: 90%; '' @
     ''font-weight: normal; '' @
     ''border: 1px solid #d1d5db; '' @
     ''border-radius: 3px; '' @
     ''word-wrap: break-word; '' @
     ''white-space: nowrap; '' @
     ''vertical-align: baseline; '' @
     ''mso-element: span;"''\<close>
| \<open>style_attr Table =
     '' style="border-collapse: collapse; '' @
     ''width: 100%; '' @
     ''margin: 16px 0; '' @
     ''font-size: 14px; '' @
     ''mso-table-lspace: 0pt; '' @
     ''mso-table-rspace: 0pt; '' @
     ''mso-table-anchor-vertical: paragraph; '' @
     ''mso-table-anchor-horizontal: margin;"''\<close>
| \<open>style_attr Th =
     '' style="border: 1px solid #d0d7de; '' @
     ''padding: 8px 12px; '' @
     ''background-color: #f6f8fa; '' @
     ''font-weight: 600; '' @
     ''text-align: left; '' @
     ''vertical-align: top; '' @
     ''mso-element: th;"''\<close>
| \<open>style_attr Td =
     '' style="border: 1px solid #d0d7de; '' @
     ''padding: 8px 12px; '' @
     ''vertical-align: top; '' @
     ''mso-element: td;"''\<close>
| \<open>style_attr Blockquote =
     '' style="margin: 16px 0; '' @
     ''padding: 0 16px; '' @
     ''border-left: 4px solid #d1d5db; '' @
     ''background-color: #f9fafb; '' @
     ''font-style: italic; '' @
     ''color: #6b7280; '' @
     ''page-break-inside: avoid;"''\<close>
| \<open>style_attr (Heading i) =
     '' style="font-size: '' @ show_nat (max (24 - i * 2) 14) @ ''px; '' @
     ''font-weight: bold; '' @
     ''margin: '' @ (if i = 1 then ''24px'' else ''20px'') @ '' 0 16px 0; '' @
     ''color: #1f2937; '' @
     ''line-height: 1.25; '' @
     ''page-break-after: avoid; '' @
     ''mso-element: h'' @ show_nat i @ '';"''\<close>

definition inject :: "elem_type \<Rightarrow> string \<Rightarrow> string" where
  "inject e s = inject_style (tag_name e) (style_attr e) s"

text \<open>The injections in the order the code applies them.\<close>

definition post_process :: "string \<Rightarrow> string" where
  "post_process s =
     foldl (\<lambda>h i. inject (Heading i) h)
       (inject Blockquote (inject Td (inject Th (inject Table (inject Code s)))))
       [1..<7]"

subsection \<open>The export and copy action\<close>

text \<open>
  \<open>handleCopy\<close> is modelled by the list of calls it makes to the outside. The three
  alerts are \<open>MsgGenerating\<close> (formula images are being generated, try again later),
  \<open>MsgCopied\<close> (content copied to the clipboard) and \<open>MsgManualCopy\<close> (automatic
  copy failed, select the preview and copy by hand).
\<close>

datatype message = MsgGenerating | MsgCopied | MsgManualCopy

datatype copy_effect =
    Alert message
  | ClipboardWrite string
  | LegacyCopy
  | SelectContents
  | LogCopyError

text \<open>
  What the outside supplies to one call of \<open>handleCopy\<close>: whether the preview node
  exists, the elements below it in document order (each with the \<open>naturalWidth\<close> the
  browser reports), the serialised clone after the code block loop (\<open>None\<close> when that
  DOM work throws), whether the structured clipboard API exists and whether its write
  resolves, whether \<open>getSelection\<close> returns a selection, and the result of
  \<open>execCommand('copy')\<close> (\<open>None\<close> when it throws).
\<close>

record copy_env =
  previewPresent :: bool
  previewElems :: "(velem \<times> nat) list"
  cloneHtml :: "string option"
  clipboardApi :: bool
  writeOk :: bool
  selectionPresent :: bool
  execCopy :: "bool option"

definition has_class :: "string \<Rightarrow> velem \<Rightarrow> bool" where
  "has_class c e = (c \<in> set (split_on CHR '' '' (classAttr e)))"

text \<open>\<open>querySelectorAll('.math-image')\<close>\<close>

definition mathImages :: "(velem \<times> nat) list \<Rightarrow> (velem \<times> nat) list" where
  "mathImages els = filter (\<lambda>x. has_class ''math-image'' (fst x)) els"

definition loadingImages :: "(velem \<times> nat) list \<Rightarrow> (velem \<times> nat) list" where
  "loadingImages imgs =
     filter (\<lambda>x. \<not> prefix ''data:image'' (src (fst x)) \<or> snd x = 0)
       (filter (\<lambda>x. tag (fst x) = ''img'') imgs)"

text \<open>The \<open>catch\<close> block of \<open>handleCopy\<close>.\<close>

definition copy_catch :: "copy_env \<Rightarrow> copy_effect list" where
  "copy_catch env =
     [LogCopyError, Alert MsgManualCopy] @
     (if previewPresent env \<and> selectionPresent env then [SelectContents] else [])"

definition handleCopy :: "copy_env \<Rightarrow> copy_effect list" where
  "handleCopy env =
     (if previewPresent env then
        (if mathImages (previewElems env) \<noteq> [] \<and>
            loadingImages (mathImages (previewElems env)) \<noteq> []
         then [Alert MsgGenerating]
         else
           (case cloneHtml env of
              None \<Rightarrow> copy_catch env
            | Some inner \<Rightarrow>
                (let htmlContent = post_process (wrap_fragment inner)
                 in if clipboardApi env then
                      (if writeOk env then [ClipboardWrite htmlContent, Alert MsgCopied]
                       else ClipboardWrite htmlContent # copy_catch env)
                    else if selectionPresent env then
                      (case execCopy env of
                         Some True \<Rightarrow> [LegacyCopy, Alert MsgCopied]
                       | _ \<Rightarrow> LegacyCopy # copy_catch env)
                    else [])))
      else [])"

subsection \<open>Serialised markup as text runs and tags\<close>

text \<open>
  The fragments the injections are proved about: a sequence of text runs without
  \<open><\<close> and of tags \<open><body>\<close> whose body holds neither \<open><\<close> nor \<open>>\<close>.
\<close>

datatype piece = Txt string | Tag string

fun render_piece :: "piece \<Rightarrow> string" where
  "render_piece (Txt t) = t"
| "render_piece (Tag b) = CHR ''<'' # b @ ''>''"

definition render :: "piece list \<Rightarrow> string" where
  "render ps = concat (map render_piece ps)"

fun wf_piece :: "piece \<Rightarrow> bool" where
  "wf_piece (Txt t) = (CHR ''<'' \<notin> set t)"
| "wf_piece (Tag b) = (CHR ''<'' \<notin> set b \<and> CHR ''>'' \<notin> set b)"

text \<open>What one injection does to one piece.\<close>

fun inject_piece :: "elem_type \<Rightarrow> piece \<Rightarrow> piece" where
  "inject_piece e (Txt t) = Txt t"
| "inject_piece e (Tag b) = (if prefix (tag_name e) b then Tag (b @ style_attr e) else Tag b)"

fun is_open_tag :: "elem_type \<Rightarrow> piece \<Rightarrow> bool" where
  "is_open_tag e (Txt t) = False"
| "is_open_tag e (Tag b) = prefix (tag_name e) b"

fun valid_elem :: "elem_type \<Rightarrow> bool" where
  "valid_elem (Heading i) = (1 \<le> i \<and> i \<le> 6)"
| "valid_elem e = True"

text \<open>The element types in the order \<open>post_process\<close> injects them.\<close>

definition all_elem_types :: "elem_type list" where
  "all_elem_types = [Code, Table, Th, Td, Blockquote] @ map Heading [1..<7]"

definition post_piece :: "piece \<Rightarrow> piece" where
  "post_piece p = foldl (\<lambda>q e. inject_piece e q) p all_elem_types"

section \<open>Sample inputs\<close>

text \<open>Concrete inputs at which the theorems below are instantiated.\<close>

definition ex_pf :: "string \<Rightarrow> jsnum" where
  "ex_pf s =
     (if s = ''0.8em'' then Some (8 / 10) else if s = ''1.0em'' then Some 1
      else if s = ''0.3em'' then Some (3 / 10) else if s = ''0.5em'' then Some (5 / 10)
      else if s = ''16px'' then Some 16 else if s = ''100px'' then Some 100
      else if s = ''50px'' then Some 50 else if s = ''0'' then Some 0 else None)"

text \<open>
  \<open>ex_rnd\<close> agrees with the round-to-nearest of binary64 on every number the sample
  computations below produce: \<open>96/72\<close>, \<open>192/72\<close>, \<open>300/72\<close> and their products with
  10, 100 and 30; every other number that occurs (72, 36) is representable.
\<close>

definition ex_rnd :: "real \<Rightarrow> real" where
  "ex_rnd x =
     (if x = 4 / 3 then 6004799503160661 / 4503599627370496
      else if x = 8 / 3 then 6004799503160661 / 2251799813685248
      else if x = 25 / 6 then 4691249611844267 / 1125899906842624
      else if x = 10 * (6004799503160661 / 4503599627370496)
        then 3752999689475413 / 281474976710656
      else if x = 10 * (6004799503160661 / 2251799813685248)
        then 3752999689475413 / 140737488355328
      else if x = 100 * (6004799503160661 / 4503599627370496)
        then 2345624805922133 / 17592186044416
      else if x = 100 * (6004799503160661 / 2251799813685248)
        then 2345624805922133 / 8796093022208
      else if x = 30 * (4691249611844267 / 1125899906842624)
        then 8796093022208001 / 70368744177664
      else x)"

definition ex_rect :: "real \<Rightarrow> real \<Rightarrow> real \<Rightarrow> real \<Rightarrow> rect" where
  "ex_rect l t w h = \<lparr>rleft = l, rtop = t, rwidth = w, rheight = h\<rparr>"

definition ex_sizes :: measures where
  "ex_sizes =
     \<lparr>offsetWidth = 100, scrollWidth = 100, computedWidth = ''100px'', rectWidth = 100,
      offsetHeight = 50, scrollHeight = 50, computedHeight = ''50px'', rectHeight = 50\<rparr>"

definition ex_env :: "(string \<Rightarrow> real \<Rightarrow> string option) \<Rightarrow> run_env" where
  "ex_env tdu =
     \<lparr>katexThrows = False, measureThrows = False,
      katexRect = Some (ex_rect 20 15 60 20), containerRect = ex_rect 0 0 100 50,
      devicePixelRatio = Some 1, sizes = ex_sizes, captureFails = False,
      toDataURL = tdu\<rparr>"

definition png_ok :: "string \<Rightarrow> string \<Rightarrow> real \<Rightarrow> string option" where
  "png_ok u t q = (if t = ''image/png'' then Some u else None)"

definition jpeg_only :: "string \<Rightarrow> string \<Rightarrow> real \<Rightarrow> string option" where
  "jpeg_only u t q = (if t = ''image/jpeg'' then Some u else None)"

definition no_encoding :: "string \<Rightarrow> real \<Rightarrow> string option" where
  "no_encoding t q = None"

definition ex_world :: world where
  "ex_world = \<lparr>imageDataUrl = '''', isLoading = True, body = [], effects = []\<rparr>"

definition ex_katex :: "string \<Rightarrow> bool \<Rightarrow> string option" where
  "ex_katex m dm = Some (''<span class=katex>'' @ m @ ''</span>'')"



definition ex_block :: props where
  "ex_block = (default_props ''x'')\<lparr>displayMode := True\<rparr>"

definition ex_loading_env :: copy_env where
  \<open>ex_loading_env =
     \<lparr>previewPresent = True,
      previewElems = [(MathToImage_render ex_katex (default_props ''E=mc^2'') ex_world, 0)],
      cloneHtml = Some ''<p><span class="math-loading ">.</span></p>'',
      clipboardApi = True, writeOk = True, selectionPresent = True,
      execCopy = Some True\<rparr>\<close>

definition ex_copy_env :: "bool \<Rightarrow> bool \<Rightarrow> bool option \<Rightarrow> copy_env" where
  "ex_copy_env api ok ex =
     \<lparr>previewPresent = True, previewElems = [], cloneHtml = Some ''<p>text</p>'',
      clipboardApi = api, writeOk = ok, selectionPresent = True, execCopy = ex\<rparr>"

definition ex_pieces :: "piece list" where
  "ex_pieces = [Tag ''h1'', Txt ''a'', Tag ''/h1'', Tag ''code'', Txt ''x'', Tag ''/code'']"

definition ex_code_lines :: "piece list" where
  "ex_code_lines = [Txt ''line1'', Tag ''br'', Txt ''line2'', Tag ''/code'', Tag ''/pre'']"

section \<open>Staging base font size: the claim\<close>

text \<open>
  Claim C7. With a font size context whose numeric value is \<open>p\<close>, the staging base font
  size is \<open>max (p * 1.1) 18\<close> pixels in block mode and \<open>max (p * 1.0) 14\<close> pixels in
  inline mode; without a context it is exactly 20 pixels in block mode and 16 pixels in
  inline mode.
\<close>

theorem baseFontSize_spec:
  "(s \<noteq> [] \<and> pf s = Some p \<longrightarrow>
      baseFontSize pf (Some s) True = Px (Some (max (p * 1.1) 18)) \<and>
      baseFontSize pf (Some s) False = Px (Some (max (p * 1.0) 14))) \<and>
   baseFontSize pf None True = Lit ''20px'' \<and>
   baseFontSize pf None False = Lit ''16px''"
  by (simp add: baseFontSize_def str_truthy_def js_max_def js_mul_def)

theorem baseFontSize_spec_witness:
  "''16px'' \<noteq> [] \<and>
   baseFontSize (\<lambda>s. if s = ''16px'' then Some 16 else None) (Some ''16px'') True = Px (Some 18) \<and>
   baseFontSize (\<lambda>s. if s = ''16px'' then Some 16 else None) (Some ''16px'') False = Px (Some 16)"
  using baseFontSize_spec [of "''16px''" "\<lambda>s. if s = ''16px'' then Some 16 else None" 16]
  by simp

section \<open>Lifecycle: cleanup, overlapping runs, encoding\<close>

lemma cleanup_fields:
  "body (cleanup e w) = remove1 e (body w)"
  "imageDataUrl (cleanup e w) = imageDataUrl w"
  "isLoading (cleanup e w) = isLoading w"
  "effects (cleanup e w) = effects w @ (if e \<in> set (body w) then [RemoveChild e] else [])"
  by (auto simp: cleanup_def remove1_idem)

lemma on_error_fields:
  "body (on_error e w) = remove1 e (body w)"
  "imageDataUrl (on_error e w) = imageDataUrl w"
  "isLoading (on_error e w) = False"
  "effects (on_error e w) =
     effects w @ [ConsoleError] @ (if e \<in> set (body w) then [RemoveChild e] else [])"
  by (simp_all add: on_error_def cleanup_fields)

text \<open>
  Claim C5. On every exit path of one rasterization attempt (empty source, typesetting
  failure, measurement failure, capture failure, encoding failure, success) the staging
  container is detached exactly as often as it was attached, which is once unless the
  source is blank; afterwards it is not attached.
\<close>

theorem staging_detached_exactly_once:
  assumes "e \<notin> set (body w)"
  shows "body (convertMathToImage rnd pf p env e w) = body w \<and>
     e \<notin> set (body (convertMathToImage rnd pf p env e w)) \<and>
     count_list (effects (convertMathToImage rnd pf p env e w)) (AppendChild e) =
       count_list (effects w) (AppendChild e) + (if trim (math p) = [] then 0 else 1) \<and>
     count_list (effects (convertMathToImage rnd pf p env e w)) (RemoveChild e) =
       count_list (effects w) (RemoveChild e) + (if trim (math p) = [] then 0 else 1)"
  using assms
  by (simp add: convertMathToImage_def start_run_def after_settle_def after_capture_def
      on_error_fields cleanup_fields Let_def remove1_append remove1_idem
      split: option.splits)

theorem staging_detached_exactly_once_witness:
  "0 \<notin> set (body ex_world) \<and>
   body (convertMathToImage ex_rnd ex_pf (default_props ''x'') (ex_env no_encoding) 0 ex_world) = [] \<and>
   count_list (effects (convertMathToImage ex_rnd ex_pf (default_props ''x'') (ex_env no_encoding) 0
     ex_world)) (AppendChild 0) = 1 \<and>
   count_list (effects (convertMathToImage ex_rnd ex_pf (default_props ''x'') (ex_env no_encoding) 0
     ex_world)) (RemoveChild 0) = 1"
  using staging_detached_exactly_once
    [of 0 ex_world ex_rnd ex_pf "default_props ''x''" "ex_env no_encoding"]
  by (simp add: ex_world_def default_props_def trim_def is_space_def)

lemma after_capture_image:
  "\<not> captureFails env \<Longrightarrow> encode (toDataURL env) (quality p) = Some u \<Longrightarrow>
   imageDataUrl (snd (after_capture p env e w)) = u"
  by (simp add: after_capture_def cleanup_fields Let_def)

lemma after_capture_phase: "fst (after_capture p env e w) = Finished"
  by (simp add: after_capture_def Let_def split: option.splits)

lemma after_settle_ok:
  "\<not> measureThrows env \<Longrightarrow> fst (after_settle rnd pf p env e w) = AwaitCapture"
  "imageDataUrl (snd (after_settle rnd pf p env e w)) = imageDataUrl w"
  by (simp_all add: after_settle_def on_error_fields Let_def)

lemma start_run_ok:
  "trim (math p) \<noteq> [] \<Longrightarrow> \<not> katexThrows env \<Longrightarrow> fst (start_run p env e w) = AwaitSettle"
  by (simp add: start_run_def Let_def)

text \<open>
  Claim C1, as stated, fails: with request \<open>A\<close> issued before request \<open>B\<close> and both in
  flight, when the settle delays end in the order of issue and \<open>B\<close>'s capture resolves
  before \<open>A\<close>'s, \<open>A\<close>'s image is left in the occurrence's state.
\<close>

theorem supersession_counterexample:
  "final_image ex_rnd ex_pf (default_props ''a'') (ex_env (png_ok ''data:image/png;A''))
     (default_props ''b'') (ex_env (png_ok ''data:image/png;B'')) [0, 1, 1, 0]
   = ''data:image/png;A''"
  by (simp add: final_image_def run_events_def init_system_def default_props_def ex_env_def
      png_ok_def start_run_def trim_def is_space_def resume_task_def after_settle_def
      after_capture_def encode_def cleanup_fields Let_def)

text \<open>
  Claim C1, amended. The runs carry no request tag and every run that encodes an image
  commits it when it resolves. With \<open>A\<close> and \<open>B\<close> both in flight and both succeeding,
  the committed image is that of the run that resolves last: \<open>B\<close>'s in the three
  interleavings that end with \<open>B\<close>'s run, \<open>A\<close>'s in the three that end with \<open>A\<close>'s.
\<close>

theorem last_resolved_wins:
  assumes A: "trim (math pA) \<noteq> []" "\<not> katexThrows envA" "\<not> measureThrows envA"
      "\<not> captureFails envA" "encode (toDataURL envA) (quality pA) = Some uA"
    and B: "trim (math pB) \<noteq> []" "\<not> katexThrows envB" "\<not> measureThrows envB"
      "\<not> captureFails envB" "encode (toDataURL envB) (quality pB) = Some uB"
  shows "final_image rnd pf pA envA pB envB [0, 0, 1, 1] = uB \<and>
         final_image rnd pf pA envA pB envB [0, 1, 0, 1] = uB \<and>
         final_image rnd pf pA envA pB envB [1, 0, 0, 1] = uB \<and>
         final_image rnd pf pA envA pB envB [1, 1, 0, 0] = uA \<and>
         final_image rnd pf pA envA pB envB [1, 0, 1, 0] = uA \<and>
         final_image rnd pf pA envA pB envB [0, 1, 1, 0] = uA"
  using A B
  by (simp add: final_image_def run_events_def init_system_def resume_task_def Let_def
      start_run_ok after_settle_ok after_capture_phase after_capture_image)

theorem last_resolved_wins_witness:
  "trim (math (default_props ''a'')) \<noteq> [] \<and>
   \<not> katexThrows (ex_env (png_ok ''data:image/png;A'')) \<and>
   \<not> measureThrows (ex_env (png_ok ''data:image/png;A'')) \<and>
   \<not> captureFails (ex_env (png_ok ''data:image/png;A'')) \<and>
   encode (toDataURL (ex_env (png_ok ''data:image/png;A''))) (quality (default_props ''a''))
     = Some ''data:image/png;A'' \<and>
   encode (toDataURL (ex_env (png_ok ''data:image/png;B''))) (quality (default_props ''b''))
     = Some ''data:image/png;B'' \<and>
   final_image ex_rnd ex_pf (default_props ''a'') (ex_env (png_ok ''data:image/png;A''))
     (default_props ''b'') (ex_env (png_ok ''data:image/png;B'')) [0, 1, 0, 1]
     = ''data:image/png;B'' \<and>
   final_image ex_rnd ex_pf (default_props ''a'') (ex_env (png_ok ''data:image/png;A''))
     (default_props ''b'') (ex_env (png_ok ''data:image/png;B'')) [0, 1, 1, 0]
     = ''data:image/png;A''"
  using last_resolved_wins [of "default_props ''a''" "ex_env (png_ok ''data:image/png;A'')"
      "''data:image/png;A''" "default_props ''b''" "ex_env (png_ok ''data:image/png;B'')"
      "''data:image/png;B''" ex_rnd ex_pf]
  by (simp add: default_props_def ex_env_def png_ok_def encode_def trim_def is_space_def)

lemma run_to_encoding:
  assumes "trim (math p) \<noteq> []" "\<not> katexThrows env" "\<not> measureThrows env"
  shows "convertMathToImage rnd pf p env e w =
     snd (after_capture p env e (snd (after_settle rnd pf p env e (snd (start_run p env e w)))))"
  using assms
  by (simp add: convertMathToImage_def start_run_def after_settle_def Let_def)

lemma run_image_on_failure:
  assumes "trim (math p) \<noteq> []" "\<not> katexThrows env" "\<not> measureThrows env"
    "\<not> captureFails env" "encode (toDataURL env) (quality p) = None"
  shows "imageDataUrl (convertMathToImage rnd pf p env e w) = imageDataUrl w"
    and "isLoading (convertMathToImage rnd pf p env e w) = False"
    and "ConsoleError \<in> set (effects (convertMathToImage rnd pf p env e w))"
  using assms
  by (simp_all add: run_to_encoding after_capture_def on_error_fields Let_def
      after_settle_def start_run_def)

lemma run_image_on_success:
  assumes "trim (math p) \<noteq> []" "\<not> katexThrows env" "\<not> measureThrows env"
    "\<not> captureFails env" "encode (toDataURL env) (quality p) = Some u"
  shows "imageDataUrl (convertMathToImage rnd pf p env e w) = u"
  using assms by (simp add: run_to_encoding after_capture_image)

text \<open>
  Claim C4, as stated, fails in its last part: when both encodings fail, the component
  shows the formula typeset by KaTeX in a \<open>math-fallback\<close> span that carries no title
  and no other failure mark; it is not a text display with a failure indicator.
\<close>

theorem encoding_failure_counterexample:
  "MathToImage_render ex_katex (default_props ''x'')
     (convertMathToImage ex_rnd ex_pf (default_props ''x'') (ex_env no_encoding) 0 ex_world)
   = \<lparr>tag = ''span'', classAttr = ''math-fallback '',
      content = InnerHTML ''<span class=katex>x</span>'', src = '''', titleAttr = None\<rparr>"
  by (simp add: MathToImage_render_def ex_katex_def default_props_def ex_env_def
      no_encoding_def ex_world_def convertMathToImage_def start_run_def after_settle_def
      after_capture_def encode_def on_error_fields trim_def is_space_def Let_def)

text \<open>
  Claim C4, amended. Encoding first asks for PNG at the requested quality; when that
  throws it asks once for JPEG at quality \<open>max quality 0.8\<close>. When both throw, the run
  logs the error, writes no image and ends the loading state; an occurrence that had no
  image then shows the KaTeX markup of the source in a \<open>math-fallback\<close> span, or the
  raw source text when KaTeX throws as well, in both cases without a title.
\<close>

theorem encoding_fallback:
  assumes "trim (math p) \<noteq> []" "\<not> katexThrows env" "\<not> measureThrows env"
    "\<not> captureFails env" "imageDataUrl w = []"
  shows "(toDataURL env ''image/png'' (quality p) = Some u \<longrightarrow>
            imageDataUrl (convertMathToImage rnd pf p env e w) = u) \<and>
         (toDataURL env ''image/png'' (quality p) = None \<and>
          toDataURL env ''image/jpeg'' (max (quality p) 0.8) = Some u \<longrightarrow>
            imageDataUrl (convertMathToImage rnd pf p env e w) = u) \<and>
         (toDataURL env ''image/png'' (quality p) = None \<and>
          toDataURL env ''image/jpeg'' (max (quality p) 0.8) = None \<longrightarrow>
            imageDataUrl (convertMathToImage rnd pf p env e w) = [] \<and>
            isLoading (convertMathToImage rnd pf p env e w) = False \<and>
            ConsoleError \<in> set (effects (convertMathToImage rnd pf p env e w)) \<and>
            MathToImage_render r p (convertMathToImage rnd pf p env e w) =
              (case r (math p) (displayMode p) of
                 Some html \<Rightarrow>
                   \<lparr>tag = ''span'', classAttr = ''math-fallback '' @ className p,
                    content = InnerHTML html, src = '''', titleAttr = None\<rparr>
               | None \<Rightarrow>
                   \<lparr>tag = ''span'', classAttr = className p,
                    content = TextContent (math p), src = '''', titleAttr = None\<rparr>))"
proof (intro conjI impI)
  assume "toDataURL env ''image/png'' (quality p) = Some u"
  then have "encode (toDataURL env) (quality p) = Some u"
    by (simp add: encode_def)
  with assms show "imageDataUrl (convertMathToImage rnd pf p env e w) = u"
    by (simp add: run_image_on_success)
next
  assume "toDataURL env ''image/png'' (quality p) = None \<and>
          toDataURL env ''image/jpeg'' (max (quality p) 0.8) = Some u"
  then have "encode (toDataURL env) (quality p) = Some u"
    by (simp add: encode_def)
  with assms show "imageDataUrl (convertMathToImage rnd pf p env e w) = u"
    by (simp add: run_image_on_success)
next
  assume "toDataURL env ''image/png'' (quality p) = None \<and>
          toDataURL env ''image/jpeg'' (max (quality p) 0.8) = None"
  then have none: "encode (toDataURL env) (quality p) = None"
    by (simp add: encode_def)
  from assms none show url: "imageDataUrl (convertMathToImage rnd pf p env e w) = []"
    by (simp add: run_image_on_failure)
  from assms none show ld: "isLoading (convertMathToImage rnd pf p env e w) = False"
    by (simp add: run_image_on_failure)
  from assms none show "ConsoleError \<in> set (effects (convertMathToImage rnd pf p env e w))"
    by (simp add: run_image_on_failure)
  from url ld show "MathToImage_render r p (convertMathToImage rnd pf p env e w) =
              (case r (math p) (displayMode p) of
                 Some html \<Rightarrow>
                   \<lparr>tag = ''span'', classAttr = ''math-fallback '' @ className p,
                    content = InnerHTML html, src = '''', titleAttr = None\<rparr>
               | None \<Rightarrow>
                   \<lparr>tag = ''span'', classAttr = className p,
                    content = TextContent (math p), src = '''', titleAttr = None\<rparr>)"
    by (simp add: MathToImage_render_def)
qed

theorem encoding_fallback_witness:
  "trim (math (default_props ''x'')) \<noteq> [] \<and> imageDataUrl ex_world = [] \<and>
   toDataURL (ex_env (png_ok ''data:image/png;A'')) ''image/png'' 1 = Some ''data:image/png;A'' \<and>
   imageDataUrl (convertMathToImage ex_rnd ex_pf (default_props ''x'')
     (ex_env (png_ok ''data:image/png;A'')) 0 ex_world) = ''data:image/png;A'' \<and>
   toDataURL (ex_env (jpeg_only ''data:image/jpeg;J'')) ''image/png'' 1 = None \<and>
   toDataURL (ex_env (jpeg_only ''data:image/jpeg;J'')) ''image/jpeg'' (max 1 0.8)
     = Some ''data:image/jpeg;J'' \<and>
   imageDataUrl (convertMathToImage ex_rnd ex_pf (default_props ''x'')
     (ex_env (jpeg_only ''data:image/jpeg;J'')) 0 ex_world) = ''data:image/jpeg;J'' \<and>
   toDataURL (ex_env no_encoding) ''image/png'' 1 = None \<and>
   toDataURL (ex_env no_encoding) ''image/jpeg'' (max 1 0.8) = None \<and>
   isLoading (convertMathToImage ex_rnd ex_pf (default_props ''x'') (ex_env no_encoding) 0 ex_world)
     = False \<and>
   titleAttr (MathToImage_render ex_katex (default_props ''x'')
     (convertMathToImage ex_rnd ex_pf (default_props ''x'') (ex_env no_encoding) 0 ex_world)) = None"
  using
    encoding_fallback [of "default_props ''x''" "ex_env (png_ok ''data:image/png;A'')"
      ex_world "''data:image/png;A''" ex_rnd ex_pf 0 ex_katex]
    encoding_fallback [of "default_props ''x''" "ex_env (jpeg_only ''data:image/jpeg;J'')"
      ex_world "''data:image/jpeg;J''" ex_rnd ex_pf 0 ex_katex]
    encoding_fallback [of "default_props ''x''" "ex_env no_encoding"
      ex_world "''''" ex_rnd ex_pf 0 ex_katex]
  by (simp add: default_props_def ex_env_def png_ok_def jpeg_only_def no_encoding_def
      ex_world_def ex_katex_def trim_def is_space_def)

section \<open>Resolution model\<close>









section \<open>Centring adjustment\<close>

text \<open>
  Claim C6 on the code: a formula that is exactly centred in its container (block mode,
  font size 20px, padding \<open>0.8em 1.0em\<close>, that is 16px and 20px, around a content box of
  60 by 20 pixels) still has its padding rewritten, because the code compares the
  offset from the container's corner, and the rewritten sides are the em numbers of the
  shorthand written back as pixels: 0.8px and 1px. The container does not keep its size.
\<close>

theorem centred_formula_padding_rewritten:
  "adjustX (ex_rect 20 16 60 20) (ex_rect 0 0 100 52) = 0 \<and>
   adjustY (ex_rect 20 16 60 20) (ex_rect 0 0 100 52) = 0 \<and>
   map_of (staging_style ex_pf ex_block) ''fontSize'' = Some (Lit ''20px'') \<and>
   map_of (staging_style ex_pf ex_block) ''padding'' = Some (Lit ''0.8em 1.0em'') \<and>
   map_of (center_padding ex_pf (Some (ex_rect 20 16 60 20)) (ex_rect 0 0 100 52)
      (staging_style ex_pf ex_block)) ''paddingTop'' = Some (Px (Some (4 / 5))) \<and>
   map_of (center_padding ex_pf (Some (ex_rect 20 16 60 20)) (ex_rect 0 0 100 52)
      (staging_style ex_pf ex_block)) ''paddingBottom'' = Some (Px (Some (4 / 5))) \<and>
   map_of (center_padding ex_pf (Some (ex_rect 20 16 60 20)) (ex_rect 0 0 100 52)
      (staging_style ex_pf ex_block)) ''paddingLeft'' = Some (Px (Some 1)) \<and>
   map_of (center_padding ex_pf (Some (ex_rect 20 16 60 20)) (ex_rect 0 0 100 52)
      (staging_style ex_pf ex_block)) ''paddingRight'' = Some (Px (Some 1))"
  by (simp add: center_padding_def staging_style_def ex_block_def default_props_def
      ex_rect_def currentPadding_def paddingTop_def paddingBottom_def paddingLeft_def
      paddingRight_def idx_def str_or_def str_truthy_def ex_pf_def adjustX_def adjustY_def
      set_style_def js_max_def js_add_def js_sub_def baseFontSize_def
      AList.update_conv' Let_def)

section \<open>Attribute injection on serialised markup\<close>

lemma inject_style_text:
  "CHR ''<'' \<notin> set t \<Longrightarrow> inject_style nm attr (t @ r) = t @ inject_style nm attr r"
  by (induction t) auto

lemma prefix_before_sep:
  "x \<notin> set nm \<Longrightarrow> prefix nm (b @ x # r) \<longleftrightarrow> prefix nm b"
  by (auto simp: prefix_append prefix_Cons)

lemma inject_style_tag:
  assumes "CHR ''<'' \<notin> set b" "CHR ''>'' \<notin> set b" "CHR ''>'' \<notin> set nm"
  shows "inject_style nm attr (CHR ''<'' # b @ CHR ''>'' # r) =
     (if prefix nm b then CHR ''<'' # b @ attr @ CHR ''>'' # inject_style nm attr r
      else CHR ''<'' # b @ CHR ''>'' # inject_style nm attr r)"
proof (cases "prefix nm b")
  case True
  then obtain b' where b: "b = nm @ b'" by (auto simp: prefix_def)
  with assms have nb: "CHR ''>'' \<notin> set b'" by simp
  have d: "dropWhile (\<lambda>x. x \<noteq> CHR ''>'') (b' @ CHR ''>'' # r) = CHR ''>'' # r"
    using nb by (induction b') auto
  have t: "takeWhile (\<lambda>x. x \<noteq> CHR ''>'') (b' @ CHR ''>'' # r) = b'"
    using nb by (induction b') auto
  show ?thesis using True by (simp add: b d t)
next
  case False
  with assms have "\<not> prefix nm (b @ CHR ''>'' # r)"
    by (simp add: prefix_before_sep)
  then show ?thesis using False assms(1)
    by (simp add: inject_style_text)
qed

lemma render_Cons: "render (p # ps) = render_piece p @ render ps"
  by (simp add: render_def)

lemma render_append: "render (ps @ qs) = render ps @ render qs"
  by (simp add: render_def)

lemma inject_style_render:
  assumes "list_all wf_piece ps" "CHR ''>'' \<notin> set nm"
  shows "inject_style nm attr (render ps) =
     render (map (\<lambda>p. case p of Txt t \<Rightarrow> Txt t
        | Tag b \<Rightarrow> if prefix nm b then Tag (b @ attr) else Tag b) ps)"
  using assms
proof (induction ps)
  case Nil
  then show ?case by (simp add: render_def)
next
  case (Cons p ps)
  then show ?case
    by (cases p) (simp_all add: render_Cons inject_style_text inject_style_tag
      del: inject_style.simps)
qed

lemma show_nat_digits:
  "show_nat (Suc 0) = ''1''"
  "show_nat 1 = ''1''" "show_nat 2 = ''2''" "show_nat 3 = ''3''"
  "show_nat 4 = ''4''" "show_nat 5 = ''5''" "show_nat 6 = ''6''"
  "show_nat 12 = ''12''" "show_nat 14 = ''14''" "show_nat 16 = ''16''"
  "show_nat 18 = ''18''" "show_nat 20 = ''20''" "show_nat 22 = ''22''"
  by simp_all

lemma valid_heading:
  "valid_elem (Heading i) \<Longrightarrow> i = 1 \<or> i = 2 \<or> i = 3 \<or> i = 4 \<or> i = 5 \<or> i = 6"
  by simp arith

lemma heading_clean:
  assumes "valid_elem (Heading i)"
  shows "CHR ''>'' \<notin> set (tag_name (Heading i))"
    and "CHR ''<'' \<notin> set (style_attr (Heading i))"
    and "CHR ''>'' \<notin> set (style_attr (Heading i))"
  using valid_heading [OF assms]
  by (auto simp: show_nat_digits simp del: show_nat.simps)

lemma tag_name_clean:
  "valid_elem e \<Longrightarrow> CHR ''>'' \<notin> set (tag_name e)"
  by (cases e) (simp_all add: heading_clean del: valid_elem.simps show_nat.simps tag_name.simps(6))

lemma style_attr_clean:
  "valid_elem e \<Longrightarrow> CHR ''<'' \<notin> set (style_attr e) \<and> CHR ''>'' \<notin> set (style_attr e)"
  by (cases e)
    (simp_all add: heading_clean del: valid_elem.simps show_nat.simps style_attr.simps(6))

lemma style_attr_nonempty: "style_attr e \<noteq> []"
  by (cases e) simp_all

lemma heading_names_incomparable:
  assumes "valid_elem (Heading i)" "valid_elem (Heading j)" "i \<noteq> j"
  shows "\<not> prefix (tag_name (Heading i)) (tag_name (Heading j))"
  using valid_heading [OF assms(1)] valid_heading [OF assms(2)] assms(3)
  by (auto simp: show_nat_digits simp del: show_nat.simps)

lemma heading_digits_incomparable:
  assumes "valid_elem (Heading i)" "valid_elem (Heading j)" "i \<noteq> j"
  shows "\<not> prefix (show_nat i) (show_nat j)"
  using heading_names_incomparable [OF assms] by simp

lemma tag_names_incomparable:
  "valid_elem e \<Longrightarrow> valid_elem e' \<Longrightarrow> e \<noteq> e' \<Longrightarrow> \<not> prefix (tag_name e) (tag_name e')"
  by (cases e; cases e')
    (simp_all add: heading_digits_incomparable del: valid_elem.simps show_nat.simps)

lemma inject_render:
  assumes "list_all wf_piece ps" "valid_elem e"
  shows "inject e (render ps) = render (map (inject_piece e) ps)"
proof -
  have "(\<lambda>p. case p of Txt t \<Rightarrow> Txt t
        | Tag b \<Rightarrow> if prefix (tag_name e) b then Tag (b @ style_attr e) else Tag b)
     = inject_piece e"
    by (rule ext) (simp split: piece.splits)
  then show ?thesis
    using inject_style_render [OF assms(1) tag_name_clean [OF assms(2)], of "style_attr e"]
    by (simp add: inject_def)
qed

lemma wf_inject_piece:
  "valid_elem e \<Longrightarrow> wf_piece p \<Longrightarrow> wf_piece (inject_piece e p)"
  using style_attr_clean [of e] by (cases p) auto

lemma wf_map_inject:
  "valid_elem e \<Longrightarrow> list_all wf_piece ps \<Longrightarrow> list_all wf_piece (map (inject_piece e) ps)"
  by (induction ps) (simp_all add: wf_inject_piece)

lemma prefix_extended:
  assumes "prefix n' b" "\<not> prefix n n'" "\<not> prefix n' n"
  shows "\<not> prefix n (b @ s)"
proof
  assume "prefix n (b @ s)"
  moreover from assms(1) have "prefix n' (b @ s)" by (simp add: prefix_prefix)
  ultimately have "prefix n n' \<or> prefix n' n"
    by (rule prefix_same_cases)
  with assms show False by simp
qed

lemma inject_piece_commute:
  assumes "valid_elem e" "valid_elem e'" "e \<noteq> e'"
  shows "inject_piece e (inject_piece e' p) = inject_piece e' (inject_piece e p)"
proof (cases p)
  case (Txt t)
  then show ?thesis by simp
next
  case (Tag b)
  have i1: "\<not> prefix (tag_name e) (tag_name e')"
    and i2: "\<not> prefix (tag_name e') (tag_name e)"
    using assms by (simp_all add: tag_names_incomparable)
  have "\<not> (prefix (tag_name e) b \<and> prefix (tag_name e') b)"
    using i1 i2 prefix_same_cases by blast
  then show ?thesis
    using Tag prefix_extended [OF _ i1 i2, of b] prefix_extended [OF _ i2 i1, of b]
    by auto
qed

lemma is_open_tag_inject_piece:
  "is_open_tag e (inject_piece e p) = is_open_tag e p"
  by (cases p) simp_all

lemma open_after_inject: "is_open_tag e \<circ> inject_piece e = is_open_tag e"
  by (rule ext) (simp add: is_open_tag_inject_piece)

lemma length_render_inject:
  "length (render (map (inject_piece e) ps)) =
     length (render ps) + length (filter (is_open_tag e) ps) * length (style_attr e)"
  by (induction ps) (auto simp: render_Cons render_def split: piece.splits elim: is_open_tag.elims)

lemma inject_piece_no_open:
  "\<not> list_ex (is_open_tag e) ps \<Longrightarrow> map (inject_piece e) ps = ps"
proof (induction ps)
  case Nil
  then show ?case by simp
next
  case (Cons p ps)
  then show ?case by (cases p) simp_all
qed

lemma inject_twice:
  assumes "list_all wf_piece ps" "valid_elem e"
  shows "inject e (inject e (render ps)) = render (map (inject_piece e \<circ> inject_piece e) ps)"
  using assms by (simp add: inject_render wf_map_inject)

lemma inject_twice_differs:
  assumes "list_all wf_piece ps" "valid_elem e" "list_ex (is_open_tag e) ps"
  shows "inject e (inject e (render ps)) \<noteq> inject e (render ps)"
proof
  assume eq: "inject e (inject e (render ps)) = inject e (render ps)"
  have k: "0 < length (filter (is_open_tag e) ps)"
    using assms(3) by (induction ps) auto
  have "length (inject e (inject e (render ps))) =
          length (inject e (render ps)) + length (filter (is_open_tag e) ps) * length (style_attr e)"
    using assms(1,2)
    by (simp add: inject_render wf_map_inject length_render_inject open_after_inject
        del: map_map)
  with eq have "length (filter (is_open_tag e) ps) * length (style_attr e) = 0"
    by simp
  with k show False by (simp add: style_attr_nonempty)
qed

text \<open>
  Claim C8, as stated, fails: the inline-code injection applied twice to \<open><code>\<close>
  gives two style attributes, not the result of applying it once.
\<close>

theorem injection_idempotence_counterexample:
  "inject Code (inject Code ''<code>'') \<noteq> inject Code ''<code>''"
  by (simp add: inject_def)

text \<open>
  Claim C8, amended. On a fragment made of text runs and tags, an injection appends its
  style attribute to every opening tag of its element type, each time it is applied:
  applying it twice appends the attribute twice, so it is idempotent only on fragments
  without such a tag. Injections for two distinct element types (code, table, th, td,
  blockquote, h1 to h6) commute on such fragments.
\<close>

theorem injections_commute_not_idempotent:
  assumes "list_all wf_piece ps" "valid_elem e" "valid_elem e'" "e \<noteq> e'"
  shows "inject e (inject e' (render ps)) = inject e' (inject e (render ps)) \<and>
         inject e (render ps) = render (map (inject_piece e) ps) \<and>
         inject e (inject e (render ps)) =
           render (map (inject_piece e \<circ> inject_piece e) ps) \<and>
         (list_ex (is_open_tag e) ps \<longrightarrow>
            inject e (inject e (render ps)) \<noteq> inject e (render ps)) \<and>
         (\<not> list_ex (is_open_tag e) ps \<longrightarrow>
            inject e (inject e (render ps)) = inject e (render ps))"
proof (intro conjI impI)
  have "map (inject_piece e) (map (inject_piece e') ps) =
        map (inject_piece e') (map (inject_piece e) ps)"
    using assms(2-4) by (simp add: inject_piece_commute)
  then show "inject e (inject e' (render ps)) = inject e' (inject e (render ps))"
    using assms(1-3) by (simp add: inject_render wf_map_inject del: map_map)
  show "inject e (render ps) = render (map (inject_piece e) ps)"
    using assms(1,2) by (rule inject_render)
  show "inject e (inject e (render ps)) = render (map (inject_piece e \<circ> inject_piece e) ps)"
    using assms(1,2) by (rule inject_twice)
next
  assume "list_ex (is_open_tag e) ps"
  with assms(1,2) show "inject e (inject e (render ps)) \<noteq> inject e (render ps)"
    by (rule inject_twice_differs)
next
  assume "\<not> list_ex (is_open_tag e) ps"
  then have "map (inject_piece e) ps = ps" by (rule inject_piece_no_open)
  then show "inject e (inject e (render ps)) = inject e (render ps)"
    using assms(1,2) by (simp add: inject_render)
qed

theorem injections_commute_not_idempotent_witness:
  "list_all wf_piece ex_pieces \<and> valid_elem Code \<and> valid_elem (Heading 1) \<and>
   Code \<noteq> Heading 1 \<and> list_ex (is_open_tag Code) ex_pieces \<and>
   inject Code (inject (Heading 1) (render ex_pieces))
     = inject (Heading 1) (inject Code (render ex_pieces)) \<and>
   inject Code (inject Code (render ex_pieces)) \<noteq> inject Code (render ex_pieces)"
proof -
  have a: "list_all wf_piece ex_pieces" by (simp add: ex_pieces_def)
  have b: "list_ex (is_open_tag Code) ex_pieces" by (simp add: ex_pieces_def)
  have c: "valid_elem Code" "valid_elem (Heading 1)" "Code \<noteq> Heading 1" by simp_all
  show ?thesis
    using injections_commute_not_idempotent [OF a c] a b c by blast
qed

lemma post_process_foldl: "post_process s = foldl (\<lambda>h e. inject e h) s all_elem_types"
  by (simp add: post_process_def all_elem_types_def foldl_map)

lemma foldl_inject_render:
  "list_all valid_elem es \<Longrightarrow> list_all wf_piece ps \<Longrightarrow>
   foldl (\<lambda>h e. inject e h) (render ps) es =
     render (map (\<lambda>p. foldl (\<lambda>q e. inject_piece e q) p es) ps)"
proof (induction es arbitrary: ps)
  case Nil
  then show ?case by simp
next
  case (Cons e es)
  then have "foldl (\<lambda>h e. inject e h) (render (map (inject_piece e) ps)) es =
     render (map (\<lambda>p. foldl (\<lambda>q e. inject_piece e q) p es) (map (inject_piece e) ps))"
    by (simp add: wf_map_inject)
  with Cons.prems show ?case
    by (simp add: inject_render comp_def)
qed

lemma all_elem_types_valid: "list_all valid_elem all_elem_types"
  by (simp add: all_elem_types_def list_all_iff)

lemma post_process_render:
  "list_all wf_piece ps \<Longrightarrow> post_process (render ps) = render (map post_piece ps)"
  using foldl_inject_render [OF all_elem_types_valid, of ps]
  by (simp add: post_process_foldl post_piece_def [abs_def])

lemma all_elem_types_list:
  "all_elem_types = [Code, Table, Th, Td, Blockquote, Heading 1, Heading 2, Heading 3,
     Heading 4, Heading 5, Heading 6]"
  by (simp add: all_elem_types_def upt_rec)

lemma render_Nil: "render [] = []"
  by (simp add: render_def)

lemma post_piece_code: "post_piece (Tag (''code'' @ b)) = Tag (''code'' @ b @ style_attr Code)"
  by (simp add: post_piece_def all_elem_types_list show_nat_digits
      del: show_nat.simps style_attr.simps)

lemma post_piece_pre: "post_piece (Tag (''pre'' @ a)) = Tag (''pre'' @ a)"
  by (simp add: post_piece_def all_elem_types_list show_nat_digits
      del: show_nat.simps style_attr.simps)

lemma post_piece_code_cons:
  "post_piece (Tag (CHR ''c'' # CHR ''o'' # CHR ''d'' # CHR ''e'' # b)) =
     Tag (CHR ''c'' # CHR ''o'' # CHR ''d'' # CHR ''e'' # b @ style_attr Code)"
  using post_piece_code [of b] by (simp del: style_attr.simps)

lemma post_piece_pre_cons:
  "post_piece (Tag (CHR ''p'' # CHR ''r'' # CHR ''e'' # a)) =
     Tag (CHR ''p'' # CHR ''r'' # CHR ''e'' # a)"
  using post_piece_pre [of a] by simp

lemma nowrap_in_code_style: "sublist ''white-space: nowrap; '' (style_attr Code)"
proof -
  have \<open>style_attr Code =
     ('' style="background-color: #f1f3f4; color: #c7254e; padding: 2px 6px; '' @
      ''margin: 0 2px; font-family: Consolas, 'Courier New', Monaco, monospace; '' @
      ''font-size: 90%; font-weight: normal; border: 1px solid #d1d5db; '' @
      ''border-radius: 3px; word-wrap: break-word; '') @
     ''white-space: nowrap; '' @ ''vertical-align: baseline; mso-element: span;"''\<close>
    by simp
  then show ?thesis
    by (simp only: sublist_appendI)
qed

text \<open>
  Claim C10. The inline-code injection rewrites every \<open><code\<close> opening tag of the
  fragment, the one that opens a code block inside \<open><pre>\<close> included: after the
  injection, and in the final fragment after all injections, that tag carries the
  inline-code style attribute, which contains \<open>white-space: nowrap\<close>.
\<close>

theorem block_code_gets_inline_style:
  assumes "list_all wf_piece ps1" "list_all wf_piece ps2"
    and "wf_piece (Tag (''pre'' @ a))" "wf_piece (Tag (''code'' @ b))"
  shows "inject Code (render (ps1 @ [Tag (''pre'' @ a), Tag (''code'' @ b)] @ ps2)) =
           inject Code (render ps1) @ ''<pre'' @ a @ ''><code'' @ b @ style_attr Code @ ''>'' @
           inject Code (render ps2) \<and>
         post_process (render (ps1 @ [Tag (''pre'' @ a), Tag (''code'' @ b)] @ ps2)) =
           post_process (render ps1) @ ''<pre'' @ a @ ''><code'' @ b @ style_attr Code @ ''>'' @
           post_process (render ps2) \<and>
         sublist ''white-space: nowrap; '' (style_attr Code)"
proof (intro conjI)
  have wf: "list_all wf_piece (ps1 @ [Tag (''pre'' @ a), Tag (''code'' @ b)] @ ps2)"
    using assms by simp
  show "inject Code (render (ps1 @ [Tag (''pre'' @ a), Tag (''code'' @ b)] @ ps2)) =
           inject Code (render ps1) @ ''<pre'' @ a @ ''><code'' @ b @ style_attr Code @ ''>'' @
           inject Code (render ps2)"
  proof -
    have "inject Code (render (ps1 @ [Tag (''pre'' @ a), Tag (''code'' @ b)] @ ps2)) =
        render (map (inject_piece Code) (ps1 @ [Tag (''pre'' @ a), Tag (''code'' @ b)] @ ps2))"
      by (rule inject_render [OF wf]) simp
    also have "\<dots> = inject Code (render ps1) @ ''<pre'' @ a @ ''><code'' @ b @
        style_attr Code @ ''>'' @ inject Code (render ps2)"
      using assms(1,2)
      by (simp add: inject_render render_append render_Cons render_Nil del: style_attr.simps)
    finally show ?thesis .
  qed
  show "post_process (render (ps1 @ [Tag (''pre'' @ a), Tag (''code'' @ b)] @ ps2)) =
           post_process (render ps1) @ ''<pre'' @ a @ ''><code'' @ b @ style_attr Code @ ''>'' @
           post_process (render ps2)"
  proof -
    have "post_process (render (ps1 @ [Tag (''pre'' @ a), Tag (''code'' @ b)] @ ps2)) =
        render (map post_piece (ps1 @ [Tag (''pre'' @ a), Tag (''code'' @ b)] @ ps2))"
      by (rule post_process_render [OF wf])
    also have "\<dots> = post_process (render ps1) @ ''<pre'' @ a @ ''><code'' @ b @
        style_attr Code @ ''>'' @ post_process (render ps2)"
      using assms(1,2)
      by (simp add: post_process_render render_append render_Cons render_Nil
          post_piece_code_cons post_piece_pre_cons del: style_attr.simps)
    finally show ?thesis .
  qed
  show "sublist ''white-space: nowrap; '' (style_attr Code)"
    by (rule nowrap_in_code_style)
qed

theorem block_code_gets_inline_style_witness:
  "list_all wf_piece [] \<and> list_all wf_piece ex_code_lines \<and>
   wf_piece (Tag (''pre'' @ [])) \<and> wf_piece (Tag (''code'' @ [])) \<and>
   render ([] @ [Tag (''pre'' @ []), Tag (''code'' @ [])] @ ex_code_lines) =
     ''<pre><code>'' @ newline_to_br (''line1'' @ [CHR 0x0A] @ ''line2'') @ ''</code></pre>'' \<and>
   post_process (render ([] @ [Tag (''pre'' @ []), Tag (''code'' @ [])] @ ex_code_lines)) =
     post_process (render []) @ ''<pre'' @ [] @ ''><code'' @ [] @ style_attr Code @ ''>'' @
     post_process (render ex_code_lines)"
proof -
  have a: "list_all wf_piece []" "list_all wf_piece ex_code_lines"
    "wf_piece (Tag (''pre'' @ []))" "wf_piece (Tag (''code'' @ []))"
    by (simp_all add: ex_code_lines_def)
  have r: "render ([] @ [Tag (''pre'' @ []), Tag (''code'' @ [])] @ ex_code_lines) =
     ''<pre><code>'' @ newline_to_br (''line1'' @ [CHR 0x0A] @ ''line2'') @ ''</code></pre>''"
    by (simp add: render_def ex_code_lines_def newline_to_br_def)
  show ?thesis
    using block_code_gets_inline_style [OF a] a r by blast
qed

section \<open>The export and copy action\<close>

text \<open>
  Claim C2 on the code: an occurrence that is still loading is rendered as a
  \<open>math-loading\<close> span, which the readiness check (it looks at \<open>.math-image\<close>
  elements only) does not see; the export goes on, writes the fragment to the clipboard
  and reports success.
\<close>

theorem export_not_refused_while_loading:
  \<open>isLoading ex_world \<and>
   classAttr (MathToImage_render ex_katex (default_props ''E=mc^2'') ex_world)
     = ''math-loading '' \<and>
   mathImages (previewElems ex_loading_env) = [] \<and>
   handleCopy ex_loading_env =
     [ClipboardWrite
        (post_process (wrap_fragment ''<p><span class="math-loading ">.</span></p>'')),
      Alert MsgCopied]\<close>
  by (simp add: handleCopy_def ex_loading_env_def mathImages_def loadingImages_def
      MathToImage_render_def ex_world_def default_props_def has_class_def)

text \<open>
  Claim C9, as stated, fails: when the structured clipboard API is available and its
  write fails, the legacy copy is not attempted, although it would have succeeded; the
  action goes straight to the manual-copy guidance.
\<close>

theorem clipboard_tiers_counterexample:
  "handleCopy (ex_copy_env True False (Some True)) =
     [ClipboardWrite (post_process (wrap_fragment ''<p>text</p>'')),
      LogCopyError, Alert MsgManualCopy, SelectContents]"
  by (simp add: handleCopy_def ex_copy_env_def mathImages_def loadingImages_def
      copy_catch_def)

text \<open>
  Claim C9, amended. Once the readiness check has passed and the fragment is built:
  if the structured clipboard API is available the fragment is written as HTML, success
  is reported when the write resolves, and when it fails the action logs the error,
  shows the manual-copy guidance and selects the preview's contents, without trying
  the legacy copy; only if the API is unavailable is the legacy selection-based copy
  made (given a selection object), with success reported when it returns true and the
  same guidance and selection when it returns false or throws.
\<close>

theorem clipboard_tiers:
  assumes "previewPresent env"
    and "loadingImages (mathImages (previewElems env)) = []"
    and "cloneHtml env = Some inner"
  shows "(clipboardApi env \<and> writeOk env \<longrightarrow>
            handleCopy env =
              [ClipboardWrite (post_process (wrap_fragment inner)), Alert MsgCopied]) \<and>
         (clipboardApi env \<and> \<not> writeOk env \<longrightarrow>
            handleCopy env =
              [ClipboardWrite (post_process (wrap_fragment inner)), LogCopyError,
               Alert MsgManualCopy] @
              (if selectionPresent env then [SelectContents] else [])) \<and>
         (\<not> clipboardApi env \<and> selectionPresent env \<and> execCopy env = Some True \<longrightarrow>
            handleCopy env = [LegacyCopy, Alert MsgCopied]) \<and>
         (\<not> clipboardApi env \<and> selectionPresent env \<and> execCopy env \<noteq> Some True \<longrightarrow>
            handleCopy env =
              [LegacyCopy, LogCopyError, Alert MsgManualCopy, SelectContents])"
  using assms
  by (auto simp: handleCopy_def copy_catch_def split: option.splits bool.splits)

theorem clipboard_tiers_witness:
  "previewPresent (ex_copy_env True True None) \<and>
   loadingImages (mathImages (previewElems (ex_copy_env True True None))) = [] \<and>
   cloneHtml (ex_copy_env True True None) = Some ''<p>text</p>'' \<and>
   clipboardApi (ex_copy_env True True None) \<and> writeOk (ex_copy_env True True None) \<and>
   handleCopy (ex_copy_env True True None) =
     [ClipboardWrite (post_process (wrap_fragment ''<p>text</p>'')), Alert MsgCopied] \<and>
   \<not> writeOk (ex_copy_env True False None) \<and>
   handleCopy (ex_copy_env True False None) =
     [ClipboardWrite (post_process (wrap_fragment ''<p>text</p>'')), LogCopyError,
      Alert MsgManualCopy, SelectContents] \<and>
   \<not> clipboardApi (ex_copy_env False False (Some True)) \<and>
   execCopy (ex_copy_env False False (Some True)) = Some True \<and>
   handleCopy (ex_copy_env False False (Some True)) = [LegacyCopy, Alert MsgCopied] \<and>
   execCopy (ex_copy_env False False (Some False)) \<noteq> Some True \<and>
   handleCopy (ex_copy_env False False (Some False)) =
     [LegacyCopy, LogCopyError, Alert MsgManualCopy, SelectContents]"
  using
    clipboard_tiers [of "ex_copy_env True True None" "''<p>text</p>''"]
    clipboard_tiers [of "ex_copy_env True False None" "''<p>text</p>''"]
    clipboard_tiers [of "ex_copy_env False False (Some True)" "''<p>text</p>''"]
    clipboard_tiers [of "ex_copy_env False False (Some False)" "''<p>text</p>''"]
  by (simp add: ex_copy_env_def mathImages_def loadingImages_def)

end
